theory Spec2Isabelle
  imports Main
begin

section \<open>The service of main.py: two handlers in front of a generative model\<close>

text \<open>
  The module defines two request models (\<^verbatim>\<open>TextInput\<close>, \<^verbatim>\<open>ImageInput\<close>) and two
  handlers (\<^verbatim>\<open>generate_text\<close>, \<^verbatim>\<open>image_to_text\<close>). Everything else it uses is a
  library: the temporary-file module, the URL fetcher, the image decoder and the
  generative model. The handlers are embedded as functions on an explicit world (the
  files on disk, the open file handles, and the calls made so far to the fetcher and to
  the model); what the libraries answer is a parameter, the record \<open>env\<close>.
\<close>

subsection \<open>Data\<close>

type_synonym path = string
type_synonym url = string
type_synonym bytes = string

text \<open>A Python exception raised by a library: its class name or message.\<close>

type_synonym exn = string

text \<open>A decoded image object, as \<^verbatim>\<open>Image.open\<close> returns it.\<close>

datatype image = PILImage bytes

text \<open>
  The argument of \<^verbatim>\<open>model.generate_content\<close>: a string at line 22, the two-element
  list \<^verbatim>\<open>[instruction, img]\<close> at line 32.
\<close>

datatype content = Text string | Parts string image

text \<open>
  The object \<^verbatim>\<open>generate_content\<close> returns. Its \<^verbatim>\<open>.text\<close> is a property of the
  library that raises when the answer holds no text, so reading it is fallible.
\<close>

datatype response = Response (response_text: "exn + string")

text \<open>
  What \<^verbatim>\<open>urllib.request.urlretrieve(url, filename)\<close> can do: fail to open the URL before
  the target file is touched; write some bytes and then raise because the content was
  shorter than announced; or write the whole content.
\<close>

datatype fetch = Unreachable exn | Truncated bytes exn | Retrieved bytes

text \<open>
  The source defines no exception classes and catches nothing: an exception leaves the
  handler as the library raised it. An error value of the model records the statement
  that raised together with the exception:
  \<^item> \<open>ValidationError\<close>: the request body did not fit the request model (lines 10-14),
    so the handler was not entered;
  \<^item> \<open>FetchError\<close>: \<^verbatim>\<open>urlretrieve\<close> raised (line 30);
  \<^item> \<open>DecodeError\<close>: \<^verbatim>\<open>Image.open\<close> raised (line 31);
  \<^item> \<open>ExternalServiceError\<close>: \<^verbatim>\<open>generate_content\<close> or \<^verbatim>\<open>response.text\<close> raised
    (lines 22-23, 32 and 35).
\<close>

datatype error = ValidationError | FetchError exn | DecodeError exn | ExternalServiceError exn

text \<open>The libraries' answers.\<close>

record env =
  mkstemp :: "(path \<rightharpoonup> bytes) \<Rightarrow> path"
  urlretrieve_ext :: "url \<Rightarrow> fetch"
  Image_open_ext :: "bytes \<Rightarrow> exn + image"
  generate_content_ext :: "content \<Rightarrow> exn + response"

text \<open>
  The world a handler runs in: the files on disk with their contents, the paths whose
  temporary-file object (what \<^verbatim>\<open>NamedTemporaryFile\<close> returns) is open, the URLs
  handed to \<^verbatim>\<open>urlretrieve\<close> so far and the contents handed to \<^verbatim>\<open>generate_content\<close>
  so far, both in call order. Handles that a library opens and closes inside one of its
  own calls are not tracked.
\<close>

record world =
  files :: "path \<rightharpoonup> bytes"
  open_files :: "path set"
  fetched :: "url list"
  model_calls :: "content list"

text \<open>The request models: one required string field each, no further constraint.\<close>

record TextInput =
  prompt :: string

record ImageInput =
  url :: string

text \<open>
  A request body is a JSON object; its string-valued fields are a map from field name to
  value. A required field of type \<^verbatim>\<open>str\<close> is accepted when it is present, whatever the
  string, and rejected when it is absent; other fields are ignored.
\<close>

type_synonym body = "string \<rightharpoonup> string"

definition parse_TextInput :: "body \<Rightarrow> error + TextInput" where
  "parse_TextInput b =
     (case b ''prompt'' of
        None \<Rightarrow> Inl ValidationError
      | Some p \<Rightarrow> Inr \<lparr>prompt = p\<rparr>)"

definition parse_ImageInput :: "body \<Rightarrow> error + ImageInput" where
  "parse_ImageInput b =
     (case b ''url'' of
        None \<Rightarrow> Inl ValidationError
      | Some u \<Rightarrow> Inr \<lparr>url = u\<rparr>)"

text \<open>The handlers return a dict with the single key \<^verbatim>\<open>generated_text\<close>.\<close>

type_synonym dict = "string \<rightharpoonup> string"

subsection \<open>The library calls, on the world\<close>

text \<open>\<^verbatim>\<open>model.generate_content(c)\<close>: one call to the model, recorded in the world.\<close>

definition generate_content :: "env \<Rightarrow> world \<Rightarrow> content \<Rightarrow> (error + response) \<times> world" where
  "generate_content e w c =
     (let w' = w\<lparr>model_calls := model_calls w @ [c]\<rparr> in
      case generate_content_ext e c of
        Inl x \<Rightarrow> (Inl (ExternalServiceError x), w')
      | Inr r \<Rightarrow> (Inr r, w'))"

text \<open>
  \<^verbatim>\<open>tempfile.NamedTemporaryFile(delete=False)\<close>: a new empty file under a name the
  library chooses, with an open handle. \<^verbatim>\<open>delete=False\<close> switches off the removal of
  the file when the handle is closed, so closing only gives up the handle.
\<close>

definition NamedTemporaryFile :: "env \<Rightarrow> world \<Rightarrow> path \<times> world" where
  "NamedTemporaryFile e w =
     (let p = mkstemp e (files w) in
      (p, w\<lparr>files := (files w)(p \<mapsto> []), open_files := insert p (open_files w)\<rparr>))"

definition close_file :: "path \<Rightarrow> world \<Rightarrow> world" where
  "close_file p w = w\<lparr>open_files := open_files w - {p}\<rparr>"

text \<open>\<^verbatim>\<open>urllib.request.urlretrieve(u, p)\<close>: the call is recorded, then the file is written.\<close>

definition urlretrieve :: "env \<Rightarrow> world \<Rightarrow> url \<Rightarrow> path \<Rightarrow> (error + unit) \<times> world" where
  "urlretrieve e w u p =
     (let w' = w\<lparr>fetched := fetched w @ [u]\<rparr> in
      case urlretrieve_ext e u of
        Unreachable x \<Rightarrow> (Inl (FetchError x), w')
      | Truncated b x \<Rightarrow> (Inl (FetchError x), w'\<lparr>files := (files w')(p \<mapsto> b)\<rparr>)
      | Retrieved b \<Rightarrow> (Inr (), w'\<lparr>files := (files w')(p \<mapsto> b)\<rparr>))"

text \<open>\<^verbatim>\<open>Image.open(p)\<close>: reads the file of that name and decodes it.\<close>

definition Image_open :: "env \<Rightarrow> world \<Rightarrow> path \<Rightarrow> error + image" where
  "Image_open e w p =
     (case files w p of
        None \<Rightarrow> Inl (DecodeError ''FileNotFoundError'')
      | Some b \<Rightarrow>
          (case Image_open_ext e b of
             Inl x \<Rightarrow> Inl (DecodeError x)
           | Inr img \<Rightarrow> Inr img))"

subsection \<open>The handlers\<close>

text \<open>Lines 19-23.\<close>

definition generate_text :: "env \<Rightarrow> world \<Rightarrow> TextInput \<Rightarrow> (error + dict) \<times> world" where
  "generate_text e w inp =
     (case generate_content e w (Text (prompt inp)) of
        (Inl x, w1) \<Rightarrow> (Inl x, w1)
      | (Inr response, w1) \<Rightarrow>
          (case response_text response of
             Inl x \<Rightarrow> (Inl (ExternalServiceError x), w1)
           | Inr t \<Rightarrow> (Inr [''generated_text'' \<mapsto> t], w1)))"

text \<open>
  Lines 26-35. The \<^verbatim>\<open>with\<close> block closes the handle of the temporary file on every
  way out of its body, by exception or not; the \<^verbatim>\<open>temp_file.close()\<close> of line 33 closes
  it once more. Nothing unlinks the file.
\<close>

definition image_to_text :: "env \<Rightarrow> world \<Rightarrow> ImageInput \<Rightarrow> (error + dict) \<times> world" where
  "image_to_text e w inp =
     (case NamedTemporaryFile e w of
        (temp_file, w1) \<Rightarrow>
          (case urlretrieve e w1 (url inp) temp_file of
             (Inl x, w2) \<Rightarrow> (Inl x, close_file temp_file w2)
           | (Inr _, w2) \<Rightarrow>
               (case Image_open e w2 temp_file of
                  Inl x \<Rightarrow> (Inl x, close_file temp_file w2)
                | Inr img \<Rightarrow>
                    (case generate_content e w2 (Parts ''What is in this photo?'' img) of
                       (Inl x, w3) \<Rightarrow> (Inl x, close_file temp_file w3)
                     | (Inr response, w3) \<Rightarrow>
                         (let w4 = close_file temp_file (close_file temp_file w3) in
                          case response_text response of
                            Inl x \<Rightarrow> (Inl (ExternalServiceError x), w4)
                          | Inr t \<Rightarrow> (Inr [''generated_text'' \<mapsto> t], w4))))))"

text \<open>
  The two routes: the body is checked against the request model first, and the handler
  runs only on a body that fits.
\<close>

definition post_generate_text :: "env \<Rightarrow> world \<Rightarrow> body \<Rightarrow> (error + dict) \<times> world" where
  "post_generate_text e w b =
     (case parse_TextInput b of
        Inl x \<Rightarrow> (Inl x, w)
      | Inr inp \<Rightarrow> generate_text e w inp)"

definition post_image_to_text :: "env \<Rightarrow> world \<Rightarrow> body \<Rightarrow> (error + dict) \<times> world" where
  "post_image_to_text e w b =
     (case parse_ImageInput b of
        Inl x \<Rightarrow> (Inl x, w)
      | Inr inp \<Rightarrow> image_to_text e w inp)"

text \<open>The name of the temporary file a call of \<^verbatim>\<open>image_to_text\<close> in world \<open>w\<close> gets.\<close>

definition temp_file_of :: "env \<Rightarrow> world \<Rightarrow> path" where
  "temp_file_of e w = mkstemp e (files w)"

text \<open>
  The model call on content \<open>c\<close> fails with \<open>x\<close>: \<^verbatim>\<open>generate_content\<close> raises it, or the
  answer's \<^verbatim>\<open>.text\<close> does.
\<close>

definition model_failure :: "env \<Rightarrow> content \<Rightarrow> exn option" where
  "model_failure e c =
     (case generate_content_ext e c of
        Inl x \<Rightarrow> Some x
      | Inr r \<Rightarrow> (case response_text r of Inl x \<Rightarrow> Some x | Inr _ \<Rightarrow> None))"

subsection \<open>What the caller of a route receives\<close>

text \<open>
  The application is made by \<^verbatim>\<open>FastAPI()\<close> at line 16 and the module registers no
  exception handler, so the framework's defaults decide what the caller sees:
  \<^item> a dict returned by a handler is sent as the JSON body of a 200 response;
  \<^item> a body that does not fit the request model is answered with a 422 response whose
    JSON body lists the fields at fault;
  \<^item> any exception that leaves a handler is answered with a 500 response whose body is
    the plain text \<^verbatim>\<open>Internal Server Error\<close>; neither the exception nor the statement
    that raised it is in the response.
\<close>

datatype payload = JSON dict | JSONDetail | PlainText string

record http_response =
  status_code :: nat
  payload :: payload

fun respond :: "error + dict \<Rightarrow> http_response" where
  "respond (Inr d) = \<lparr>status_code = 200, payload = JSON d\<rparr>"
| "respond (Inl ValidationError) = \<lparr>status_code = 422, payload = JSONDetail\<rparr>"
| "respond (Inl (FetchError x)) =
     \<lparr>status_code = 500, payload = PlainText ''Internal Server Error''\<rparr>"
| "respond (Inl (DecodeError x)) =
     \<lparr>status_code = 500, payload = PlainText ''Internal Server Error''\<rparr>"
| "respond (Inl (ExternalServiceError x)) =
     \<lparr>status_code = 500, payload = PlainText ''Internal Server Error''\<rparr>"

definition route_generate_text :: "env \<Rightarrow> world \<Rightarrow> body \<Rightarrow> http_response \<times> world" where
  "route_generate_text e w b =
     (case post_generate_text e w b of (r, w') \<Rightarrow> (respond r, w'))"

definition route_image_to_text :: "env \<Rightarrow> world \<Rightarrow> body \<Rightarrow> http_response \<times> world" where
  "route_image_to_text e w b =
     (case post_image_to_text e w b of (r, w') \<Rightarrow> (respond r, w'))"

subsection \<open>A concrete environment\<close>

text \<open>
  A stand-in for the libraries with the two scenarios of the specification: a URL that
  serves a picture, one that serves plain text, every other URL unreachable; a model that
  answers the prompts of the scenarios.
\<close>

definition demo_env :: env where
  "demo_env =
     \<lparr>mkstemp = (\<lambda>_. ''/tmp/tmpk3x9''),
      urlretrieve_ext =
        (\<lambda>u. if u = ''http://example.com/cat.jpg'' then Retrieved ''JFIF-cat''
             else if u = ''http://example.com/notes.txt'' then Retrieved ''plain notes''
             else if u = ''not a url'' then Unreachable ''ValueError: unknown url type''
             else Unreachable ''URLError''),
      Image_open_ext =
        (\<lambda>b. if b = ''JFIF-cat'' then Inr (PILImage b) else Inl ''UnidentifiedImageError''),
      generate_content_ext =
        (\<lambda>c. case c of
               Text p \<Rightarrow> if p = ''Say hello'' then Inr (Response (Inr ''Hello!''))
                         else Inr (Response (Inr ''Hi.''))
             | Parts i img \<Rightarrow> Inr (Response (Inr ''A cat sitting on a chair.'')))\<rparr>"

text \<open>The same libraries in front of a provider that refuses every call.\<close>

definition quota_env :: env where
  "quota_env = demo_env\<lparr>generate_content_ext := (\<lambda>_. Inl ''ResourceExhausted'')\<rparr>"

text \<open>A world with no files, no open handles and no calls made.\<close>

definition empty_world :: world where
  "empty_world = \<lparr>files = Map.empty, open_files = {}, fetched = [], model_calls = []\<rparr>"

section \<open>Properties\<close>

subsection \<open>What each way through the handlers returns and leaves behind\<close>

lemmas io_defs = NamedTemporaryFile_def urlretrieve_def Image_open_def generate_content_def
  close_file_def temp_file_of_def

lemma image_to_text_unreachable:
  "urlretrieve_ext e (url inp) = Unreachable x \<Longrightarrow>
   image_to_text e w inp =
     (Inl (FetchError x),
      w\<lparr>files := (files w)(temp_file_of e w \<mapsto> []),
        open_files := open_files w - {temp_file_of e w},
        fetched := fetched w @ [url inp]\<rparr>)"
  by (simp add: image_to_text_def io_defs Let_def)

lemma image_to_text_truncated:
  "urlretrieve_ext e (url inp) = Truncated b x \<Longrightarrow>
   image_to_text e w inp =
     (Inl (FetchError x),
      w\<lparr>files := (files w)(temp_file_of e w \<mapsto> b),
        open_files := open_files w - {temp_file_of e w},
        fetched := fetched w @ [url inp]\<rparr>)"
  by (simp add: image_to_text_def io_defs Let_def)

lemma image_to_text_undecodable:
  "urlretrieve_ext e (url inp) = Retrieved b \<Longrightarrow> Image_open_ext e b = Inl x \<Longrightarrow>
   image_to_text e w inp =
     (Inl (DecodeError x),
      w\<lparr>files := (files w)(temp_file_of e w \<mapsto> b),
        open_files := open_files w - {temp_file_of e w},
        fetched := fetched w @ [url inp]\<rparr>)"
  by (simp add: image_to_text_def io_defs Let_def)

lemma image_to_text_model_fails:
  "urlretrieve_ext e (url inp) = Retrieved b \<Longrightarrow> Image_open_ext e b = Inr img \<Longrightarrow>
   model_failure e (Parts ''What is in this photo?'' img) = Some x \<Longrightarrow>
   image_to_text e w inp =
     (Inl (ExternalServiceError x),
      w\<lparr>files := (files w)(temp_file_of e w \<mapsto> b),
        open_files := open_files w - {temp_file_of e w},
        fetched := fetched w @ [url inp],
        model_calls := model_calls w @ [Parts ''What is in this photo?'' img]\<rparr>)"
  by (auto simp add: image_to_text_def io_defs model_failure_def Let_def split: sum.splits)

lemma image_to_text_success:
  "urlretrieve_ext e (url inp) = Retrieved b \<Longrightarrow> Image_open_ext e b = Inr img \<Longrightarrow>
   generate_content_ext e (Parts ''What is in this photo?'' img) = Inr r \<Longrightarrow>
   response_text r = Inr t \<Longrightarrow>
   image_to_text e w inp =
     (Inr [''generated_text'' \<mapsto> t],
      w\<lparr>files := (files w)(temp_file_of e w \<mapsto> b),
        open_files := open_files w - {temp_file_of e w},
        fetched := fetched w @ [url inp],
        model_calls := model_calls w @ [Parts ''What is in this photo?'' img]\<rparr>)"
  by (simp add: image_to_text_def io_defs Let_def)

lemma generate_text_model_fails:
  "model_failure e (Text (prompt inp)) = Some x \<Longrightarrow>
   generate_text e w inp =
     (Inl (ExternalServiceError x), w\<lparr>model_calls := model_calls w @ [Text (prompt inp)]\<rparr>)"
  by (auto simp add: generate_text_def generate_content_def model_failure_def Let_def
      split: sum.splits)

lemma generate_text_success:
  "generate_content_ext e (Text (prompt inp)) = Inr r \<Longrightarrow> response_text r = Inr t \<Longrightarrow>
   generate_text e w inp =
     (Inr [''generated_text'' \<mapsto> t], w\<lparr>model_calls := model_calls w @ [Text (prompt inp)]\<rparr>)"
  by (simp add: generate_text_def generate_content_def Let_def)

lemma generate_text_not_validation: "fst (generate_text e w inp) \<noteq> Inl ValidationError"
  by (simp add: generate_text_def generate_content_def Let_def split: sum.splits)

lemma image_to_text_not_validation: "fst (image_to_text e w inp) \<noteq> Inl ValidationError"
  by (simp add: image_to_text_def io_defs Let_def split: sum.splits fetch.splits)

lemma image_to_text_fetched:
  "fetched (snd (image_to_text e w inp)) = fetched w @ [url inp]"
  by (simp add: image_to_text_def io_defs Let_def split: sum.splits fetch.splits)

lemma image_to_text_temp_file:
  "temp_file_of e w \<in> dom (files (snd (image_to_text e w inp))) \<and>
   temp_file_of e w \<notin> open_files (snd (image_to_text e w inp))"
  by (simp add: image_to_text_def io_defs Let_def split: fetch.splits sum.splits)

lemma post_image_to_text_missing:
  "b ''url'' = None \<Longrightarrow> post_image_to_text e w b = (Inl ValidationError, w)"
  by (simp add: post_image_to_text_def parse_ImageInput_def)

lemma post_image_to_text_present:
  "b ''url'' = Some u \<Longrightarrow> post_image_to_text e w b = image_to_text e w \<lparr>url = u\<rparr>"
  by (simp add: post_image_to_text_def parse_ImageInput_def)

lemma post_generate_text_missing:
  "b ''prompt'' = None \<Longrightarrow> post_generate_text e w b = (Inl ValidationError, w)"
  by (simp add: post_generate_text_def parse_TextInput_def)

lemma post_generate_text_present:
  "b ''prompt'' = Some p \<Longrightarrow> post_generate_text e w b = generate_text e w \<lparr>prompt = p\<rparr>"
  by (simp add: post_generate_text_def parse_TextInput_def)

lemma generate_text_world:
  "snd (generate_text e w inp) = w\<lparr>model_calls := model_calls w @ [Text (prompt inp)]\<rparr>"
  by (simp add: generate_text_def generate_content_def Let_def split: sum.splits)

lemmas demo_defs = demo_env_def quota_env_def empty_world_def

subsection \<open>The temporary file of \<open>image_to_text\<close>\<close>

text \<open>
  C1. The temporary file is not removed: \<^verbatim>\<open>delete=False\<close> switches the removal off
  and nothing in the module unlinks the file. What holds on every way out of a call that
  passed validation (success, fetch failure, decode failure, model failure) is that the
  file made for the call is still on disk and the temporary-file object is closed. A
  request that fails validation never enters the handler, so no file is made and the
  world is untouched.
\<close>

theorem temp_file_closed_not_removed:
  "(case b ''url'' of
      None \<Rightarrow> post_image_to_text e w b = (Inl ValidationError, w)
    | Some u \<Rightarrow>
        temp_file_of e w \<in> dom (files (snd (post_image_to_text e w b))) \<and>
        temp_file_of e w \<notin> open_files (snd (post_image_to_text e w b)))"
  by (simp add: post_image_to_text_missing post_image_to_text_present image_to_text_temp_file
      split: option.splits)

text \<open>The theorem at a body without fields and at a request whose URL cannot be reached.\<close>

theorem temp_file_closed_not_removed_witness:
  "post_image_to_text demo_env empty_world Map.empty = (Inl ValidationError, empty_world) \<and>
   ''/tmp/tmpk3x9'' \<in> dom (files (snd (post_image_to_text demo_env empty_world
       [''url'' \<mapsto> ''http://nowhere.invalid/a.png'']))) \<and>
   ''/tmp/tmpk3x9'' \<notin> open_files (snd (post_image_to_text demo_env empty_world
       [''url'' \<mapsto> ''http://nowhere.invalid/a.png'']))"
  using temp_file_closed_not_removed
      [where b = Map.empty and e = demo_env and w = empty_world]
    temp_file_closed_not_removed
      [where b = "[''url'' \<mapsto> ''http://nowhere.invalid/a.png'']" and e = demo_env
         and w = empty_world]
  by (simp add: temp_file_of_def demo_defs)

text \<open>
  The wording "removed before the call returns" fails already on the success path: in a
  world without files, the captioning scenario of the specification answers with the
  caption, and afterwards the temporary file is on disk with the downloaded bytes.
\<close>

theorem image_to_text_leaves_temp_file_counterexample:
  "fst (post_image_to_text demo_env empty_world [''url'' \<mapsto> ''http://example.com/cat.jpg''])
     = Inr [''generated_text'' \<mapsto> ''A cat sitting on a chair.''] \<and>
   files empty_world ''/tmp/tmpk3x9'' = None \<and>
   files (snd (post_image_to_text demo_env empty_world
       [''url'' \<mapsto> ''http://example.com/cat.jpg''])) ''/tmp/tmpk3x9'' = Some ''JFIF-cat''"
  by (simp add: post_image_to_text_def parse_ImageInput_def image_to_text_def io_defs
      demo_defs Let_def)

text \<open>
  C4. When the resource cannot be retrieved (the URL cannot be opened, or the content
  breaks off), \<open>image_to_text\<close> fails with \<open>FetchError\<close> carrying the exception of the
  fetcher, and the model is not called. The temporary file is not removed: it stays on
  disk, and the temporary-file object is closed.
\<close>

theorem fetch_failure_keeps_temp_file:
  "urlretrieve_ext e (url inp) = Unreachable x \<or> urlretrieve_ext e (url inp) = Truncated b x \<Longrightarrow>
   fst (image_to_text e w inp) = Inl (FetchError x) \<and>
   temp_file_of e w \<in> dom (files (snd (image_to_text e w inp))) \<and>
   temp_file_of e w \<notin> open_files (snd (image_to_text e w inp)) \<and>
   model_calls (snd (image_to_text e w inp)) = model_calls w"
  by (auto simp add: image_to_text_unreachable image_to_text_truncated)

text \<open>The theorem at an unreachable URL.\<close>

theorem fetch_failure_keeps_temp_file_witness:
  "urlretrieve_ext demo_env (url \<lparr>url = ''http://nowhere.invalid/a.png''\<rparr>) = Unreachable ''URLError'' \<and>
   fst (image_to_text demo_env empty_world \<lparr>url = ''http://nowhere.invalid/a.png''\<rparr>)
     = Inl (FetchError ''URLError'') \<and>
   ''/tmp/tmpk3x9'' \<in> dom (files (snd (image_to_text demo_env empty_world
       \<lparr>url = ''http://nowhere.invalid/a.png''\<rparr>))) \<and>
   ''/tmp/tmpk3x9'' \<notin> open_files (snd (image_to_text demo_env empty_world
       \<lparr>url = ''http://nowhere.invalid/a.png''\<rparr>)) \<and>
   model_calls (snd (image_to_text demo_env empty_world
       \<lparr>url = ''http://nowhere.invalid/a.png''\<rparr>)) = []"
proof -
  have h: "urlretrieve_ext demo_env (url \<lparr>url = ''http://nowhere.invalid/a.png''\<rparr>)
      = Unreachable ''URLError''"
    by (simp add: demo_env_def)
  from fetch_failure_keeps_temp_file
    [where e = demo_env and w = empty_world and b = "[]", OF disjI1, OF h] h
  show ?thesis by (simp add: temp_file_of_def demo_defs)
qed

text \<open>
  "No temporary file remains" fails at an unreachable URL: the call fails with
  \<open>FetchError\<close>, and a file that was not there before is there afterwards, empty.
\<close>

theorem unreachable_url_leaves_temp_file_counterexample:
  "fst (post_image_to_text demo_env empty_world [''url'' \<mapsto> ''http://nowhere.invalid/a.png''])
     = Inl (FetchError ''URLError'') \<and>
   files empty_world ''/tmp/tmpk3x9'' = None \<and>
   files (snd (post_image_to_text demo_env empty_world
       [''url'' \<mapsto> ''http://nowhere.invalid/a.png''])) ''/tmp/tmpk3x9'' = Some []"
  by (simp add: post_image_to_text_def parse_ImageInput_def image_to_text_def io_defs
      demo_defs Let_def)

text \<open>
  C5. When the fetched bytes are not an image, \<open>image_to_text\<close> fails with
  \<open>DecodeError\<close> carrying the exception of the decoder, and the model is not called.
  The temporary file is not removed: it stays on disk, holding the fetched bytes, and
  the temporary-file object is closed.
\<close>

theorem decode_failure_keeps_temp_file:
  "urlretrieve_ext e (url inp) = Retrieved b \<Longrightarrow> Image_open_ext e b = Inl x \<Longrightarrow>
   fst (image_to_text e w inp) = Inl (DecodeError x) \<and>
   files (snd (image_to_text e w inp)) (temp_file_of e w) = Some b \<and>
   temp_file_of e w \<notin> open_files (snd (image_to_text e w inp)) \<and>
   model_calls (snd (image_to_text e w inp)) = model_calls w"
  by (simp add: image_to_text_undecodable)

text \<open>The theorem at a URL that serves plain text.\<close>

theorem decode_failure_keeps_temp_file_witness:
  "urlretrieve_ext demo_env (url \<lparr>url = ''http://example.com/notes.txt''\<rparr>)
     = Retrieved ''plain notes'' \<and>
   Image_open_ext demo_env ''plain notes'' = Inl ''UnidentifiedImageError'' \<and>
   fst (image_to_text demo_env empty_world \<lparr>url = ''http://example.com/notes.txt''\<rparr>)
     = Inl (DecodeError ''UnidentifiedImageError'') \<and>
   files (snd (image_to_text demo_env empty_world \<lparr>url = ''http://example.com/notes.txt''\<rparr>))
     ''/tmp/tmpk3x9'' = Some ''plain notes'' \<and>
   ''/tmp/tmpk3x9'' \<notin> open_files (snd (image_to_text demo_env empty_world
       \<lparr>url = ''http://example.com/notes.txt''\<rparr>)) \<and>
   model_calls (snd (image_to_text demo_env empty_world
       \<lparr>url = ''http://example.com/notes.txt''\<rparr>)) = []"
proof -
  have h1: "urlretrieve_ext demo_env (url \<lparr>url = ''http://example.com/notes.txt''\<rparr>)
      = Retrieved ''plain notes''"
    by (simp add: demo_env_def)
  have h2: "Image_open_ext demo_env ''plain notes'' = Inl ''UnidentifiedImageError''"
    by (simp add: demo_env_def)
  from decode_failure_keeps_temp_file [OF h1 h2, of empty_world] h1 h2
  show ?thesis by (simp add: temp_file_of_def demo_defs)
qed

text \<open>
  "No temporary file remains" fails at a URL that serves plain text: the call fails with
  \<open>DecodeError\<close>, and a file that was not there before holds the text afterwards.
\<close>

theorem non_image_leaves_temp_file_counterexample:
  "fst (post_image_to_text demo_env empty_world [''url'' \<mapsto> ''http://example.com/notes.txt''])
     = Inl (DecodeError ''UnidentifiedImageError'') \<and>
   files empty_world ''/tmp/tmpk3x9'' = None \<and>
   files (snd (post_image_to_text demo_env empty_world
       [''url'' \<mapsto> ''http://example.com/notes.txt''])) ''/tmp/tmpk3x9'' = Some ''plain notes''"
  by (simp add: post_image_to_text_def parse_ImageInput_def image_to_text_def io_defs
      demo_defs Let_def)

subsection \<open>Validation\<close>

text \<open>
  C2. A request without a \<open>prompt\<close> fails with \<open>ValidationError\<close> and the model is never
  invoked: the world is returned as it was. A prompt that is present is never rejected,
  the empty string included: \<^verbatim>\<open>prompt: str\<close> carries no length constraint, and the
  prompt is forwarded to the model in one call.
\<close>

theorem missing_prompt_rejected_present_prompt_forwarded:
  "(case b ''prompt'' of
      None \<Rightarrow> post_generate_text e w b = (Inl ValidationError, w)
    | Some p \<Rightarrow>
        fst (post_generate_text e w b) \<noteq> Inl ValidationError \<and>
        model_calls (snd (post_generate_text e w b)) = model_calls w @ [Text p])"
  by (simp add: post_generate_text_missing post_generate_text_present
      generate_text_not_validation generate_text_world split: option.splits)

text \<open>The theorem at a body without fields and at the empty prompt.\<close>

theorem missing_prompt_rejected_witness:
  "post_generate_text demo_env empty_world Map.empty = (Inl ValidationError, empty_world) \<and>
   fst (post_generate_text demo_env empty_world [''prompt'' \<mapsto> '''']) \<noteq> Inl ValidationError \<and>
   model_calls (snd (post_generate_text demo_env empty_world [''prompt'' \<mapsto> '''']))
     = [Text '''']"
  using missing_prompt_rejected_present_prompt_forwarded
      [where b = Map.empty and e = demo_env and w = empty_world]
    missing_prompt_rejected_present_prompt_forwarded
      [where b = "[''prompt'' \<mapsto> '''']" and e = demo_env and w = empty_world]
  by (simp add: empty_world_def)

text \<open>
  The empty prompt is not a validation failure: it reaches the model, and the answer of
  the model comes back.
\<close>

theorem empty_prompt_reaches_model_counterexample:
  "post_generate_text demo_env empty_world [''prompt'' \<mapsto> '''']
     = (Inr [''generated_text'' \<mapsto> ''Hi.''], empty_world\<lparr>model_calls := [Text '''']\<rparr>)"
  by (simp add: post_generate_text_def parse_TextInput_def generate_text_def
      generate_content_def demo_defs Let_def)

text \<open>
  C6. A request without a \<open>url\<close> fails with \<open>ValidationError\<close> before anything is
  fetched: the world is returned as it was. A \<open>url\<close> that is present is never rejected
  with \<open>ValidationError\<close>, well-formed or not: \<^verbatim>\<open>url: str\<close> accepts every string, and
  the string is handed to the fetcher as it is.
\<close>

theorem missing_url_rejected_present_url_fetched:
  "(case b ''url'' of
      None \<Rightarrow> post_image_to_text e w b = (Inl ValidationError, w)
    | Some u \<Rightarrow>
        fst (post_image_to_text e w b) \<noteq> Inl ValidationError \<and>
        fetched (snd (post_image_to_text e w b)) = fetched w @ [u])"
  by (simp add: post_image_to_text_missing post_image_to_text_present
      image_to_text_not_validation image_to_text_fetched split: option.splits)

text \<open>The theorem at a body without fields and at a string that is no URL.\<close>

theorem missing_url_rejected_witness:
  "post_image_to_text demo_env empty_world Map.empty = (Inl ValidationError, empty_world) \<and>
   fst (post_image_to_text demo_env empty_world [''url'' \<mapsto> ''not a url''])
     \<noteq> Inl ValidationError \<and>
   fetched (snd (post_image_to_text demo_env empty_world [''url'' \<mapsto> ''not a url'']))
     = [''not a url'']"
  using missing_url_rejected_present_url_fetched
      [where b = Map.empty and e = demo_env and w = empty_world]
    missing_url_rejected_present_url_fetched
      [where b = "[''url'' \<mapsto> ''not a url'']" and e = demo_env and w = empty_world]
  by (simp add: empty_world_def)

text \<open>
  A string that is no URL is not stopped by validation: the fetcher is called with it,
  and the failure that comes back is the fetcher's.
\<close>

theorem malformed_url_is_fetched_counterexample:
  "fst (post_image_to_text demo_env empty_world [''url'' \<mapsto> ''not a url''])
     = Inl (FetchError ''ValueError: unknown url type'') \<and>
   fetched (snd (post_image_to_text demo_env empty_world [''url'' \<mapsto> ''not a url'']))
     = [''not a url'']"
  by (simp add: post_image_to_text_def parse_ImageInput_def image_to_text_def io_defs
      demo_defs Let_def)

subsection \<open>Pass-through of the model's answer and of its failure\<close>

text \<open>
  C3. For every non-empty prompt, when the model answers the prompt with a text,
  \<open>generate_text\<close> returns a dict whose \<open>generated_text\<close> is exactly that text.
\<close>

theorem generate_text_returns_model_text:
  "p \<noteq> [] \<Longrightarrow> b ''prompt'' = Some p \<Longrightarrow>
   generate_content_ext e (Text p) = Inr r \<Longrightarrow> response_text r = Inr t \<Longrightarrow>
   fst (post_generate_text e w b) = Inr [''generated_text'' \<mapsto> t]"
  by (simp add: post_generate_text_present generate_text_success)

text \<open>The scenario of the specification: \<open>Say hello\<close> is answered \<open>Hello!\<close>.\<close>

theorem generate_text_returns_model_text_witness:
  "''Say hello'' \<noteq> [] \<and>
   [''prompt'' \<mapsto> ''Say hello''] ''prompt'' = Some ''Say hello'' \<and>
   generate_content_ext demo_env (Text ''Say hello'') = Inr (Response (Inr ''Hello!'')) \<and>
   response_text (Response (Inr ''Hello!'')) = Inr ''Hello!'' \<and>
   fst (post_generate_text demo_env empty_world [''prompt'' \<mapsto> ''Say hello''])
     = Inr [''generated_text'' \<mapsto> ''Hello!'']"
proof -
  have h1: "''Say hello'' \<noteq> []" by simp
  have h2: "[''prompt'' \<mapsto> ''Say hello''] ''prompt'' = Some ''Say hello''" by simp
  have h3: "generate_content_ext demo_env (Text ''Say hello'') = Inr (Response (Inr ''Hello!''))"
    by (simp add: demo_env_def)
  have h4: "response_text (Response (Inr ''Hello!'')) = Inr ''Hello!''" by simp
  have "fst (post_generate_text demo_env empty_world [''prompt'' \<mapsto> ''Say hello''])
      = Inr [''generated_text'' \<mapsto> ''Hello!'']"
    using h1 h2 h3 h4
    by (rule generate_text_returns_model_text
        [where b = "[''prompt'' \<mapsto> ''Say hello'']" and p = "''Say hello''"])
  with h1 h2 h3 h4 show ?thesis by simp
qed

text \<open>
  C7. When the model call fails, in \<open>generate_text\<close> or in \<open>image_to_text\<close>, the exception
  leaves the handler uncaught, as an \<open>ExternalServiceError\<close> carrying it: the failure is
  not swallowed (the result is an error, and the caller of the route receives a failure
  response, never an answer) and not retried (exactly one call to the model is added to
  the world). The response the caller receives is not structured and does not name the
  kind of failure: it is the 500 response with the plain text \<open>Internal Server Error\<close>.
\<close>

theorem model_failure_uncaught_once_generic_500:
  "(bt ''prompt'' = Some p \<longrightarrow> model_failure e (Text p) = Some x \<longrightarrow>
      post_generate_text e w bt =
        (Inl (ExternalServiceError x), w\<lparr>model_calls := model_calls w @ [Text p]\<rparr>) \<and>
      route_generate_text e w bt =
        (\<lparr>status_code = 500, payload = PlainText ''Internal Server Error''\<rparr>,
         w\<lparr>model_calls := model_calls w @ [Text p]\<rparr>)) \<and>
   (bi ''url'' = Some u \<longrightarrow> urlretrieve_ext e u = Retrieved b \<longrightarrow>
    Image_open_ext e b = Inr img \<longrightarrow>
    model_failure e (Parts ''What is in this photo?'' img) = Some y \<longrightarrow>
      fst (post_image_to_text e w bi) = Inl (ExternalServiceError y) \<and>
      model_calls (snd (post_image_to_text e w bi))
        = model_calls w @ [Parts ''What is in this photo?'' img] \<and>
      fst (route_image_to_text e w bi) =
        \<lparr>status_code = 500, payload = PlainText ''Internal Server Error''\<rparr> \<and>
      model_calls (snd (route_image_to_text e w bi))
        = model_calls w @ [Parts ''What is in this photo?'' img])"
  by (simp add: route_generate_text_def route_image_to_text_def post_generate_text_present
      post_image_to_text_present generate_text_model_fails image_to_text_model_fails)

text \<open>Both routes in front of a provider that refuses every call.\<close>

theorem model_failure_uncaught_once_generic_500_witness:
  "[''prompt'' \<mapsto> ''Say hello''] ''prompt'' = Some ''Say hello'' \<and>
   model_failure quota_env (Text ''Say hello'') = Some ''ResourceExhausted'' \<and>
   post_generate_text quota_env empty_world [''prompt'' \<mapsto> ''Say hello''] =
     (Inl (ExternalServiceError ''ResourceExhausted''),
      empty_world\<lparr>model_calls := [Text ''Say hello'']\<rparr>) \<and>
   route_generate_text quota_env empty_world [''prompt'' \<mapsto> ''Say hello''] =
     (\<lparr>status_code = 500, payload = PlainText ''Internal Server Error''\<rparr>,
      empty_world\<lparr>model_calls := [Text ''Say hello'']\<rparr>) \<and>
   [''url'' \<mapsto> ''http://example.com/cat.jpg''] ''url'' = Some ''http://example.com/cat.jpg'' \<and>
   urlretrieve_ext quota_env ''http://example.com/cat.jpg'' = Retrieved ''JFIF-cat'' \<and>
   Image_open_ext quota_env ''JFIF-cat'' = Inr (PILImage ''JFIF-cat'') \<and>
   model_failure quota_env (Parts ''What is in this photo?'' (PILImage ''JFIF-cat''))
     = Some ''ResourceExhausted'' \<and>
   fst (post_image_to_text quota_env empty_world [''url'' \<mapsto> ''http://example.com/cat.jpg''])
     = Inl (ExternalServiceError ''ResourceExhausted'') \<and>
   model_calls (snd (post_image_to_text quota_env empty_world
       [''url'' \<mapsto> ''http://example.com/cat.jpg'']))
     = [Parts ''What is in this photo?'' (PILImage ''JFIF-cat'')] \<and>
   fst (route_image_to_text quota_env empty_world [''url'' \<mapsto> ''http://example.com/cat.jpg''])
     = \<lparr>status_code = 500, payload = PlainText ''Internal Server Error''\<rparr> \<and>
   model_calls (snd (route_image_to_text quota_env empty_world
       [''url'' \<mapsto> ''http://example.com/cat.jpg'']))
     = [Parts ''What is in this photo?'' (PILImage ''JFIF-cat'')]"
proof -
  have h1: "[''prompt'' \<mapsto> ''Say hello''] ''prompt'' = Some ''Say hello''"
    by simp
  have h2: "model_failure quota_env (Text ''Say hello'') = Some ''ResourceExhausted''"
    by (simp add: model_failure_def demo_defs)
  have h3: "[''url'' \<mapsto> ''http://example.com/cat.jpg''] ''url''
      = Some ''http://example.com/cat.jpg''"
    by simp
  have h4: "urlretrieve_ext quota_env ''http://example.com/cat.jpg'' = Retrieved ''JFIF-cat''"
    by (simp add: demo_defs)
  have h5: "Image_open_ext quota_env ''JFIF-cat'' = Inr (PILImage ''JFIF-cat'')"
    by (simp add: demo_defs)
  have h6: "model_failure quota_env (Parts ''What is in this photo?'' (PILImage ''JFIF-cat''))
      = Some ''ResourceExhausted''"
    by (simp add: model_failure_def demo_defs)
  from model_failure_uncaught_once_generic_500
    [where e = quota_env and w = empty_world and bt = "[''prompt'' \<mapsto> ''Say hello'']"
       and p = "''Say hello''" and x = "''ResourceExhausted''"
       and bi = "[''url'' \<mapsto> ''http://example.com/cat.jpg'']"
       and u = "''http://example.com/cat.jpg''" and b = "''JFIF-cat''"
       and img = "PILImage ''JFIF-cat''" and y = "''ResourceExhausted''"]
    h1 h2 h3 h4 h5 h6
  show ?thesis by (simp add: empty_world_def)
qed

text \<open>
  "Surfaced as an ExternalServiceError in a structured failure response" fails at the
  caller: a refused model call is answered with the plain text \<open>Internal Server Error\<close>
  under status 500, and that is the very response an unreachable picture gets, so the
  response tells the caller neither the kind of failure nor anything else about it.
\<close>

theorem model_failure_response_not_structured_counterexample:
  "fst (route_generate_text quota_env empty_world [''prompt'' \<mapsto> ''Say hello''])
     = \<lparr>status_code = 500, payload = PlainText ''Internal Server Error''\<rparr> \<and>
   fst (post_generate_text quota_env empty_world [''prompt'' \<mapsto> ''Say hello''])
     = Inl (ExternalServiceError ''ResourceExhausted'') \<and>
   fst (post_image_to_text demo_env empty_world [''url'' \<mapsto> ''http://nowhere.invalid/a.png''])
     = Inl (FetchError ''URLError'') \<and>
   fst (route_image_to_text demo_env empty_world [''url'' \<mapsto> ''http://nowhere.invalid/a.png''])
     = fst (route_generate_text quota_env empty_world [''prompt'' \<mapsto> ''Say hello''])"
  by (simp add: route_generate_text_def route_image_to_text_def post_generate_text_def
      post_image_to_text_def parse_TextInput_def parse_ImageInput_def generate_text_def
      image_to_text_def io_defs demo_defs Let_def)

text \<open>
  C8. When the URL can be fetched, the bytes decode to an image and the model answers
  with a text, \<open>image_to_text\<close> has fetched that URL into the temporary file, has made
  one call to the model with the fixed instruction \<open>What is in this photo?\<close> and the
  decoded image, and returns the model's text unchanged as \<open>generated_text\<close>. The
  instruction is a constant: no part of the request enters it.
\<close>

theorem image_to_text_captions_fetched_image:
  "urlretrieve_ext e (url inp) = Retrieved b \<Longrightarrow> Image_open_ext e b = Inr img \<Longrightarrow>
   generate_content_ext e (Parts ''What is in this photo?'' img) = Inr r \<Longrightarrow>
   response_text r = Inr t \<Longrightarrow>
   fst (image_to_text e w inp) = Inr [''generated_text'' \<mapsto> t] \<and>
   fetched (snd (image_to_text e w inp)) = fetched w @ [url inp] \<and>
   files (snd (image_to_text e w inp)) (temp_file_of e w) = Some b \<and>
   model_calls (snd (image_to_text e w inp))
     = model_calls w @ [Parts ''What is in this photo?'' img]"
  by (simp add: image_to_text_success)

text \<open>
  The scenario of the specification: the picture of the cat is captioned
  \<open>A cat sitting on a chair.\<close>
\<close>

theorem image_to_text_captions_fetched_image_witness:
  "urlretrieve_ext demo_env (url \<lparr>url = ''http://example.com/cat.jpg''\<rparr>) = Retrieved ''JFIF-cat'' \<and>
   Image_open_ext demo_env ''JFIF-cat'' = Inr (PILImage ''JFIF-cat'') \<and>
   generate_content_ext demo_env (Parts ''What is in this photo?'' (PILImage ''JFIF-cat''))
     = Inr (Response (Inr ''A cat sitting on a chair.'')) \<and>
   response_text (Response (Inr ''A cat sitting on a chair.'')) = Inr ''A cat sitting on a chair.'' \<and>
   fst (image_to_text demo_env empty_world \<lparr>url = ''http://example.com/cat.jpg''\<rparr>)
     = Inr [''generated_text'' \<mapsto> ''A cat sitting on a chair.''] \<and>
   fetched (snd (image_to_text demo_env empty_world \<lparr>url = ''http://example.com/cat.jpg''\<rparr>))
     = [''http://example.com/cat.jpg''] \<and>
   files (snd (image_to_text demo_env empty_world \<lparr>url = ''http://example.com/cat.jpg''\<rparr>))
     ''/tmp/tmpk3x9'' = Some ''JFIF-cat'' \<and>
   model_calls (snd (image_to_text demo_env empty_world \<lparr>url = ''http://example.com/cat.jpg''\<rparr>))
     = [Parts ''What is in this photo?'' (PILImage ''JFIF-cat'')]"
proof -
  have h1: "urlretrieve_ext demo_env (url \<lparr>url = ''http://example.com/cat.jpg''\<rparr>)
      = Retrieved ''JFIF-cat''"
    by (simp add: demo_env_def)
  have h2: "Image_open_ext demo_env ''JFIF-cat'' = Inr (PILImage ''JFIF-cat'')"
    by (simp add: demo_env_def)
  have h3: "generate_content_ext demo_env (Parts ''What is in this photo?'' (PILImage ''JFIF-cat''))
      = Inr (Response (Inr ''A cat sitting on a chair.''))"
    by (simp add: demo_env_def)
  have h4: "response_text (Response (Inr ''A cat sitting on a chair.''))
      = Inr ''A cat sitting on a chair.''"
    by simp
  from image_to_text_captions_fetched_image [OF h1 h2 h3 h4, of empty_world] h1 h2 h3 h4
  show ?thesis by (simp add: temp_file_of_def demo_defs)
qed

subsection \<open>Frame of \<open>generate_text\<close>\<close>

text \<open>
  C9. For every prompt, \<open>generate_text\<close> creates no temporary file and changes nothing on
  the file system: the files and the open handles are as before, nothing is fetched, and
  the one thing added to the world is a single call to the model, with the prompt.
\<close>

theorem generate_text_only_calls_model:
  "files (snd (generate_text e w inp)) = files w \<and>
   open_files (snd (generate_text e w inp)) = open_files w \<and>
   fetched (snd (generate_text e w inp)) = fetched w \<and>
   model_calls (snd (generate_text e w inp)) = model_calls w @ [Text (prompt inp)]"
  by (simp add: generate_text_world)

end
